theory Spec2Isabelle
  imports Main
begin

section \<open>JavaScript strings and values\<close>

text \<open>
  Strings are character lists. \<open>String.prototype.split\<close> with the one-character
  separator \<open>"/"\<close> cuts the string at every separator and never returns an empty
  array: \<open>"".split("/")\<close> is \<open>[""]\<close> and \<open>"a/".split("/")\<close> is \<open>["a", ""]\<close>.
\<close>

fun split :: "char \<Rightarrow> string \<Rightarrow> string list" where
  "split sep [] = [[]]"
| "split sep (c # cs) =
     (if c = sep then [] # split sep cs
      else (case split sep cs of
              [] \<Rightarrow> [[c]]
            | w # ws \<Rightarrow> (c # w) # ws))"

text \<open>
  Reading an array by index, as a destructuring pattern or \<open>arr[i]\<close> does: an index
  past the end gives \<open>undefined\<close>, here \<open>None\<close>.
\<close>

fun at :: "'a list \<Rightarrow> nat \<Rightarrow> 'a option" where
  "at [] i = None"
| "at (x # xs) 0 = Some x"
| "at (x # xs) (Suc i) = at xs i"

text \<open>\<open>!s\<close> for a value that is a string or \<open>undefined\<close>: both \<open>undefined\<close> and
  the empty string are falsy.\<close>

fun falsy :: "string option \<Rightarrow> bool" where
  "falsy None = True"
| "falsy (Some s) = (s = [])"

text \<open>A string or \<open>undefined\<close> inside a template literal.\<close>

fun template :: "string option \<Rightarrow> string" where
  "template None = ''undefined''"
| "template (Some s) = s"

section \<open>Upload validation\<close>

text \<open>The part of multer's file object that the callbacks of the source read, with the
  client's own file name and the bytes beside it.\<close>

record upload_file =
  originalname :: string
  mimetype :: string
  content :: string

definition ACCEPTABLE_SUBTYPES :: "string list" where
  "ACCEPTABLE_SUBTYPES = [''png'', ''jpeg'']"

definition isAcceptableSubtype :: "string \<Rightarrow> bool" where
  "isAcceptableSubtype subtype = (subtype \<in> set ACCEPTABLE_SUBTYPES)"

definition toAcceptableImageMediaType :: "string \<Rightarrow> (string \<times> string) option" where
  "toAcceptableImageMediaType fullMimeType =
     (let parts = split CHR ''/'' fullMimeType;
          mediaType = at parts 0;
          mediaSubtype = at parts 1
      in if falsy mediaType \<or> falsy mediaSubtype then None
         else if mediaType \<noteq> Some ''image'' then None
         else (case mediaSubtype of
                 None \<Rightarrow> None
               | Some subtype \<Rightarrow>
                   if \<not> isAcceptableSubtype subtype then None
                   else Some (''image'', subtype)))"

text \<open>
  The \<open>fileFilter\<close> callback of multer. It answers through \<open>cb\<close>: \<open>cb(new Error(m))\<close>
  is \<open>Inl m\<close>, \<open>cb(null, true)\<close> is \<open>Inr True\<close>.
\<close>

definition fileFilter :: "upload_file \<Rightarrow> string + bool" where
  "fileFilter file =
     (case toAcceptableImageMediaType (mimetype file) of
        None \<Rightarrow> Inl ''Only image files in png or jpeg format can be uploaded''
      | Some mediaType \<Rightarrow> Inr True)"

text \<open>
  The \<open>filename\<close> callback of the disk storage. \<open>nanoid()\<close> draws a random identifier;
  the draw is the first argument.
\<close>

definition storage_filename :: "string \<Rightarrow> upload_file \<Rightarrow> string" where
  "storage_filename nanoid file =
     nanoid @ ''.'' @ template (at (split CHR ''/'' (mimetype file)) 1)"

subsection \<open>The media type as the specification reads it\<close>

text \<open>
  The specification splits a declared media type into \<open>type/subtype\<close>. The type part is
  the text before the first \<open>/\<close>; the subtype part is the text between the first \<open>/\<close>
  and the next one (or the end of the string).
\<close>

definition spec_type_part :: "string \<Rightarrow> string" where
  "spec_type_part s = takeWhile (\<lambda>c. c \<noteq> CHR ''/'') s"

definition spec_subtype_part :: "string \<Rightarrow> string" where
  "spec_subtype_part s =
     takeWhile (\<lambda>c. c \<noteq> CHR ''/'') (drop 1 (dropWhile (\<lambda>c. c \<noteq> CHR ''/'') s))"

section \<open>Password hashing\<close>

text \<open>
  Modelled from the spec: \<open>bcrypt.hash\<close> and \<open>bcrypt.compare\<close>. The bcrypt package is
  imported by the source and is not part of it. The specification describes a
  credential hash as a self-describing string that encodes algorithm identifier, cost
  factor, salt and digest; it stands here as the record of the four parts. \<open>hash\<close>
  uses a freshly generated random salt per call: the draw is an argument. \<open>compare\<close>
  recomputes the digest with the salt and cost embedded in the hash and checks it
  against the stored digest. The salted one-way function itself is the parameter
  \<open>kdf\<close> (cost, salt, plaintext to digest); nothing is assumed of it. Library
  failures (an invalid cost, an unparseable hash) are outside the model: the cost is
  the constant of the source and a record is always well formed.
\<close>

record credential =
  algorithm :: string
  cost :: nat
  salt :: string
  digest :: string

type_synonym kdf = "nat \<Rightarrow> string \<Rightarrow> string \<Rightarrow> string"

definition bcrypt_hash :: "kdf \<Rightarrow> string \<Rightarrow> string \<Rightarrow> nat \<Rightarrow> credential" where
  "bcrypt_hash kdf fresh_salt data rounds =
     \<lparr>algorithm = ''bcrypt'', cost = rounds, salt = fresh_salt,
      digest = kdf rounds fresh_salt data\<rparr>"

definition bcrypt_compare :: "kdf \<Rightarrow> string \<Rightarrow> credential \<Rightarrow> bool" where
  "bcrypt_compare kdf data encrypted =
     (kdf (cost encrypted) (salt encrypted) data = digest encrypted)"

text \<open>The class \<open>HashPassword\<close>: its constructor sets \<open>saltRounds\<close> to 10.\<close>

definition saltRounds :: nat where
  "saltRounds = 10"

definition generate :: "kdf \<Rightarrow> string \<Rightarrow> string \<Rightarrow> credential" where
  "generate kdf fresh_salt plainPassword = bcrypt_hash kdf fresh_salt plainPassword saltRounds"

definition compare :: "kdf \<Rightarrow> string \<Rightarrow> credential \<Rightarrow> bool" where
  "compare kdf plainPassword hash = bcrypt_compare kdf plainPassword hash"

section \<open>The user router\<close>

subsection \<open>Requests, responses and effects\<close>

text \<open>\<open>path.join\<close> on segments that need no normalisation.\<close>

fun join :: "string list \<Rightarrow> string" where
  "join [] = ''.''"
| "join [p] = p"
| "join (p # q # ps) = p @ ''/'' @ join (q # ps)"

text \<open>\<open>s.replace(pattern, replacement)\<close> with a string pattern: the first occurrence
  only.\<close>

fun replace :: "string \<Rightarrow> string \<Rightarrow> string \<Rightarrow> string" where
  "replace pattern replacement [] = (if pattern = [] then replacement else [])"
| "replace pattern replacement (c # cs) =
     (if take (length pattern) (c # cs) = pattern
      then replacement @ drop (length pattern) (c # cs)
      else c # replace pattern replacement cs)"

text \<open>\<open>req.file\<close> as multer's disk storage fills it in.\<close>

record stored_file = upload_file +
  destination :: string
  filename :: string
  path :: string

datatype js_value = Undefined | Str string | FileObj stored_file

fun js :: "string option \<Rightarrow> js_value" where
  "js None = Undefined"
| "js (Some s) = Str s"

record validation_error =
  param :: string
  msg :: string
  location :: string
  "value" :: js_value

text \<open>
  The class \<open>User\<close> is imported by the source and is not part of it. The fields are
  those the router reads and writes; \<open>user_id\<close> is the \<open>id\<close> as a template literal
  prints it.
\<close>

record user =
  user_id :: string
  name :: "string option"
  email :: "string option"
  password :: credential
  imageName :: string

text \<open>
  A request as the handlers read it: the route parameter, the text fields in \<open>req.body\<close>
  (\<open>req.body[k]\<close>, \<open>None\<close> for \<open>undefined\<close>), the file part of the form's \<open>image\<close> field
  when the body has one, and whether \<open>req.authentication\<close> and \<open>req.dialogMessage\<close> are
  defined. The upload middleware adds \<open>req.file\<close> and \<open>req.uploadError\<close>.
\<close>

record request =
  userId :: string
  body :: "string \<Rightarrow> string option"
  upload :: "upload_file option"
  authentication :: bool
  dialogMessage :: bool

record uploaded_request = request +
  "file" :: "stored_file option"
  uploadError :: "validation_error option"

text \<open>
  How a handler ends: \<open>res.render(view, {user, errors})\<close>, \<open>res.redirect(url)\<close>,
  \<open>next(new Error(message))\<close>, or its promise rejects with no response sent.
\<close>

datatype response =
    Render string "(string \<times> string option) list" "validation_error list"
  | Redirect string
  | NextError string
  | Rejected string

text \<open>
  The calls a request makes on its collaborators, in order: \<open>bcrypt.hash\<close> on a
  plaintext, \<open>user.save()\<close>, \<open>req.authentication.login(user)\<close>,
  \<open>req.dialogMessage.setMessage(m)\<close>, \<open>user.update()\<close>, \<open>console.log(s)\<close>, and the
  disk storage writing the bytes of a file to a path.
\<close>

datatype effect =
    Hashed string
  | Saved user
  | LoggedIn user
  | Message string
  | Updated user
  | Logged string
  | Written string string

record outcome =
  effects :: "effect list"
  response :: response

text \<open>
  The middlewares and the model that the router imports and the source does not hold,
  as parameters. A guard answers \<open>None\<close> when it calls \<open>next()\<close> and the response it
  sends otherwise. \<open>isUniqueEmail\<close> answers the message it rejects a value with.
  \<open>User_new\<close> is the constructor, \<open>User_save\<close> gives the object as \<open>save()\<close> leaves it
  (its \<open>id\<close> set), \<open>User_find\<close> is \<open>User.find(Number(userId))\<close> on the route parameter.
\<close>

record collaborators =
  forbidAuthUser :: "request \<Rightarrow> response option"
  ensureAuthUser :: "request \<Rightarrow> response option"
  ensureCorrectUser :: "request \<Rightarrow> response option"
  isUniqueEmail :: "js_value \<Rightarrow> string option"
  User_new :: "string option \<Rightarrow> string option \<Rightarrow> credential \<Rightarrow> user"
  User_save :: "user \<Rightarrow> user"
  User_find :: "string \<Rightarrow> user option"

subsection \<open>Field validation\<close>

text \<open>
  The validation chains of express-validator that the routes use. A chain reads one
  field of the body and, when its validator fails, records an error with the field's
  name, the message, the location and the value. \<open>notEmpty\<close> fails when the value,
  as a string, has length 0 (\<open>undefined\<close> counts as the empty string). \<open>custom\<close>
  fails when the validator rejects. \<open>validationResult\<close> collects the errors of the
  chains in their order.
\<close>

fun toString :: "js_value \<Rightarrow> string" where
  "toString Undefined = []"
| "toString (Str s) = s"
| "toString (FileObj f) = ''[object Object]''"

definition notEmpty ::
  "string \<Rightarrow> string \<Rightarrow> 'a request_scheme \<Rightarrow> validation_error list" where
  "notEmpty fld message req =
     (let v = js (body req fld)
      in if toString v = [] then [\<lparr>param = fld, msg = message, location = ''body'', value = v\<rparr>]
         else [])"

definition custom ::
  "string \<Rightarrow> (js_value \<Rightarrow> string option) \<Rightarrow> 'a request_scheme \<Rightarrow> validation_error list" where
  "custom fld validator req =
     (let v = js (body req fld)
      in case validator v of
           None \<Rightarrow> []
         | Some message \<Rightarrow> [\<lparr>param = fld, msg = message, location = ''body'', value = v\<rparr>])"

definition validationResult ::
  "('a request_scheme \<Rightarrow> validation_error list) list \<Rightarrow> 'a request_scheme
     \<Rightarrow> validation_error list" where
  "validationResult validators req = concat (map (\<lambda>validator. validator req) validators)"

subsection \<open>Creating a user\<close>

text \<open>
  \<open>userRouter.post("/")\<close>: the guard, the four chains, the handler. \<open>fresh_salt\<close> is the
  salt that \<open>bcrypt.hash\<close> draws if the handler reaches it.
\<close>

definition post_users :: "collaborators \<Rightarrow> kdf \<Rightarrow> string \<Rightarrow> request \<Rightarrow> outcome" where
  "post_users env kdf fresh_salt req =
     (case forbidAuthUser env req of
        Some r \<Rightarrow> \<lparr>effects = [], response = r\<rparr>
      | None \<Rightarrow>
          (let errors = validationResult
                 [notEmpty ''name'' ''Name can't be blank'',
                  notEmpty ''email'' ''Email can't be blank'',
                  notEmpty ''password'' ''Password can't be blank'',
                  custom ''email'' (isUniqueEmail env)] req
           in if errors \<noteq> [] then
                \<lparr>effects = [],
                 response = Render ''users/new''
                   [(''name'', body req ''name''), (''email'', body req ''email''),
                    (''password'', body req ''password'')]
                   errors\<rparr>
              else
                (case body req ''password'' of
                   None \<Rightarrow> \<lparr>effects = [], response = Rejected ''data and salt arguments required''\<rparr>
                 | Some plain \<Rightarrow>
                     (let hashPassword = generate kdf fresh_salt plain;
                          u = User_save env
                                (User_new env (body req ''name'') (body req ''email'') hashPassword)
                      in \<lparr>effects =
                            [Hashed plain, Saved u]
                            @ (if authentication req then [LoggedIn u] else [])
                            @ (if dialogMessage req
                               then [Message ''You have signed up successfully''] else []),
                          response = Redirect (''/users/'' @ user_id u)\<rparr>))))"

subsection \<open>Uploading the profile image\<close>

definition storage_destination :: string where
  "storage_destination = join [''public'', ''image'', ''users'']"

text \<open>
  Modelled from the spec: \<open>upload.single(name)\<close> of multer, which the source configures
  with \<open>storage\<close> and \<open>fileFilter\<close> and which is not part of it. A request without a
  file passes untouched. A file goes through \<open>fileFilter\<close> first: a rejected file
  produces the error and is not written to storage; an accepted file is written to the
  fixed directory under the generated name, and \<open>req.file\<close> describes it. The answer is
  the writes to storage, \<open>req.file\<close>, and the error that \<open>upload.single(name)\<close> passes to
  its callback.
\<close>

definition upload_single ::
  "string \<Rightarrow> string \<Rightarrow> request \<Rightarrow> effect list \<times> stored_file option \<times> string option" where
  "upload_single fld nanoid req =
     (case upload req of
        None \<Rightarrow> ([], None, None)
      | Some f \<Rightarrow>
          (case fileFilter f of
             Inl message \<Rightarrow> ([], None, Some message)
           | Inr False \<Rightarrow> ([], None, None)
           | Inr True \<Rightarrow>
               (let fname = storage_filename nanoid f;
                    p = join [storage_destination, fname]
                in ([Written p (content f)],
                    Some (upload_file.extend f
                       \<lparr>destination = storage_destination, filename = fname, path = p\<rparr>),
                    None))))"

text \<open>
  \<open>uploadHandler\<close> runs \<open>upload.single("image")\<close> and, when it fails with an \<open>Error\<close>,
  records the failure as \<open>req.uploadError\<close>; then it calls \<open>next()\<close>.
\<close>

definition uploadHandler :: "string \<Rightarrow> request \<Rightarrow> effect list \<times> uploaded_request" where
  "uploadHandler nanoid req =
     (let name = ''image''
      in case upload_single name nanoid req of
           (written, req_file, err) \<Rightarrow>
             (written,
              request.extend req
                \<lparr>file = req_file,
                 uploadError =
                   (case err of
                      Some message \<Rightarrow>
                        Some \<lparr>param = name, msg = message, location = ''body'',
                              value = (case req_file of None \<Rightarrow> Undefined
                                       | Some f \<Rightarrow> FileObj f)\<rparr>
                    | None \<Rightarrow> None)\<rparr>))"

subsection \<open>Updating a user\<close>

text \<open>
  \<open>userRouter.patch("/:userId")\<close>: the two guards, the upload middleware, the two chains,
  the handler. \<open>nanoid\<close> is the identifier that the storage draws if a file is accepted.
\<close>

definition patch_user :: "collaborators \<Rightarrow> string \<Rightarrow> request \<Rightarrow> outcome" where
  "patch_user env nanoid req0 =
     (case ensureAuthUser env req0 of
        Some r \<Rightarrow> \<lparr>effects = [], response = r\<rparr>
      | None \<Rightarrow>
     (case ensureCorrectUser env req0 of
        Some r \<Rightarrow> \<lparr>effects = [], response = r\<rparr>
      | None \<Rightarrow>
     (case uploadHandler nanoid req0 of
        (written, req) \<Rightarrow>
          (let errors = validationResult
                 [notEmpty ''name'' ''Name can't be blank'',
                  notEmpty ''email'' ''Email can't be blank''] req
           in if errors \<noteq> [] \<or> uploadError req \<noteq> None then
                (let validationErrors =
                       errors @ (case uploadError req of None \<Rightarrow> [] | Some e \<Rightarrow> [e])
                 in \<lparr>effects = written,
                     response = Render ''users/edit''
                       [(''id'', Some (userId req)), (''name'', body req ''name''),
                        (''email'', body req ''email'')]
                       validationErrors\<rparr>)
              else
                (case User_find env (userId req) of
                   None \<Rightarrow>
                     \<lparr>effects = written,
                      response = NextError ''Invalid error: The user is undefined.''\<rparr>
                 | Some found \<Rightarrow>
                     (let u = found\<lparr>name := body req ''name'', email := body req ''email''\<rparr>;
                          (u', logged) =
                             (case file req of
                                Some f \<Rightarrow> (u\<lparr>imageName := replace ''public'' '''' (path f)\<rparr>, [])
                              | None \<Rightarrow> (u, [Logged ''no file'']))
                      in \<lparr>effects =
                            written @ logged @ [Updated u']
                            @ (if dialogMessage req
                               then [Message ''Your account has been updated successfully'']
                               else []),
                          response = Redirect (''/users/'' @ user_id u')\<rparr>))))))"

subsection \<open>The multipart body of an update\<close>






section \<open>Example inputs\<close>

text \<open>
  Concrete collaborators and requests, for running the handlers: guards that let every
  request through, a store that holds the user with id 7, three requests, and two
  multipart bodies with a PDF file before and after the text fields.
\<close>

abbreviation example_user :: user where
  "example_user \<equiv>
     \<lparr>user_id = ''7'', name = Some ''Ann'', email = Some ''ann@example.com'',
      password = \<lparr>algorithm = ''bcrypt'', cost = 10, salt = ''N9qo8uLOickgx2ZMRZoMye'',
                  digest = ''IjZAgcfl7p92ldGxad68LJZdL17lhWy''\<rparr>,
      imageName = ''/image/users/ann.png''\<rparr>"

abbreviation example_env :: collaborators where
  "example_env \<equiv>
     \<lparr>forbidAuthUser = (\<lambda>req. None),
      ensureAuthUser = (\<lambda>req. None),
      ensureCorrectUser = (\<lambda>req. None),
      isUniqueEmail = (\<lambda>v. None),
      User_new = (\<lambda>n e h. \<lparr>user_id = ''undefined'', name = n, email = e, password = h,
                              imageName = ''/image/users/default_user.jpg''\<rparr>),
      User_save = (\<lambda>u. u\<lparr>user_id := ''8''\<rparr>),
      User_find = (\<lambda>i. if i = ''7'' then Some example_user else None)\<rparr>"

abbreviation signup_blank_name :: request where
  "signup_blank_name \<equiv>
     \<lparr>userId = '''',
      body = (\<lambda>k. if k = ''name'' then Some ''''
                  else if k = ''email'' then Some ''bob@example.com''
                  else if k = ''password'' then Some ''hunter2'' else None),
      upload = None, authentication = True, dialogMessage = True\<rparr>"

abbreviation update_with_pdf :: request where
  "update_with_pdf \<equiv>
     \<lparr>userId = ''7'',
      body = (\<lambda>k. if k = ''name'' then Some ''''
                  else if k = ''email'' then Some ''ann@example.org'' else None),
      upload = Some \<lparr>originalname = ''cv.pdf'', mimetype = ''application/pdf'',
                      content = ''%PDF-1.7''\<rparr>,
      authentication = True, dialogMessage = True\<rparr>"

abbreviation update_without_file :: request where
  "update_without_file \<equiv>
     \<lparr>userId = ''7'',
      body = (\<lambda>k. if k = ''name'' then Some ''Ann B''
                  else if k = ''email'' then Some ''ann@example.org'' else None),
      upload = None, authentication = True, dialogMessage = True\<rparr>"



section \<open>Properties of the upload validator\<close>

lemma split_not_Nil: "split sep s \<noteq> []"
  by (induction s) (auto split: list.splits)

lemma at_split_0: "at (split CHR ''/'' s) 0 = Some (spec_type_part s)"
proof (induction s)
  case Nil
  show ?case by (simp add: spec_type_part_def)
next
  case (Cons c cs)
  then show ?case
    by (cases "split CHR ''/'' cs") (auto simp: spec_type_part_def)
qed

lemma split_unfold:
  "split sep s = takeWhile (\<lambda>c. c \<noteq> sep) s #
     (case dropWhile (\<lambda>c. c \<noteq> sep) s of [] \<Rightarrow> [] | x # r \<Rightarrow> split sep r)"
  by (induction s) (auto split: list.splits)

lemma at_split_1:
  "at (split CHR ''/'' s) (Suc 0) =
     (case dropWhile (\<lambda>c. c \<noteq> CHR ''/'') s of [] \<Rightarrow> None | x # r \<Rightarrow> Some (spec_type_part r))"
proof -
  have "at (split CHR ''/'' s) (Suc 0) =
      at (case dropWhile (\<lambda>c. c \<noteq> CHR ''/'') s of [] \<Rightarrow> [] | x # r \<Rightarrow> split CHR ''/'' r) 0"
    by (subst split_unfold) simp
  also have "\<dots> = (case dropWhile (\<lambda>c. c \<noteq> CHR ''/'') s of [] \<Rightarrow> None | x # r \<Rightarrow> Some (spec_type_part r))"
    by (cases "dropWhile (\<lambda>c. c \<noteq> CHR ''/'') s") (simp_all add: at_split_0 del: dropWhile_eq_Nil_conv)
  finally show ?thesis .
qed

lemma falsy_at_split_1:
  "falsy (at (split CHR ''/'' s) (Suc 0)) = (spec_subtype_part s = [])"
  by (cases "dropWhile (\<lambda>c. c \<noteq> CHR ''/'') s")
     (simp_all add: at_split_1 spec_subtype_part_def spec_type_part_def del: dropWhile_eq_Nil_conv)

lemma at_split_1_Some:
  "at (split CHR ''/'' s) (Suc 0) = Some sub \<Longrightarrow> spec_subtype_part s = sub"
  by (cases "dropWhile (\<lambda>c. c \<noteq> CHR ''/'') s")
     (simp_all add: at_split_1 spec_subtype_part_def spec_type_part_def del: dropWhile_eq_Nil_conv)

lemma toAcceptable_char:
  "toAcceptableImageMediaType s =
     (if spec_type_part s = ''image'' \<and> spec_subtype_part s \<in> {''png'', ''jpeg''}
      then Some (''image'', spec_subtype_part s) else None)"
  apply (cases "at (split CHR ''/'' s) (Suc 0)")
  using falsy_at_split_1[of s]
   apply (auto simp: toAcceptableImageMediaType_def Let_def at_split_0 isAcceptableSubtype_def ACCEPTABLE_SUBTYPES_def dest: at_split_1_Some)
  done

lemma toAcceptable_Some_at:
  "toAcceptableImageMediaType s = Some (t, sub) \<Longrightarrow>
     t = ''image'' \<and> at (split CHR ''/'' s) (Suc 0) = Some sub \<and> isAcceptableSubtype sub"
  by (auto simp: toAcceptableImageMediaType_def Let_def split: if_splits option.splits)

text \<open>
  C1. The upload filter accepts a file exactly when the type part of its declared media
  type is \<open>image\<close> and the subtype part is \<open>png\<close> or \<open>jpeg\<close>; every other declared media
  type is rejected with the message for the end user. \<open>image/png\<close> and \<open>image/jpeg\<close> are
  accepted; \<open>image/gif\<close>, \<open>text/plain\<close> and \<open>image\<close> (no \<open>/\<close>) are rejected.
\<close>

theorem fileFilter_accepts_exactly_allowlisted_images:
  "fileFilter f =
     (if spec_type_part (mimetype f) = ''image'' \<and>
         spec_subtype_part (mimetype f) \<in> {''png'', ''jpeg''}
      then Inr True
      else Inl ''Only image files in png or jpeg format can be uploaded'')
   \<and> toAcceptableImageMediaType ''image/png'' = Some (''image'', ''png'')
   \<and> toAcceptableImageMediaType ''image/jpeg'' = Some (''image'', ''jpeg'')
   \<and> toAcceptableImageMediaType ''image/gif'' = None
   \<and> toAcceptableImageMediaType ''text/plain'' = None
   \<and> toAcceptableImageMediaType ''image'' = None"
proof -
  have "fileFilter f =
     (if spec_type_part (mimetype f) = ''image'' \<and>
         spec_subtype_part (mimetype f) \<in> {''png'', ''jpeg''}
      then Inr True
      else Inl ''Only image files in png or jpeg format can be uploaded'')"
    by (simp add: fileFilter_def toAcceptable_char)
  moreover have "toAcceptableImageMediaType ''image/png'' = Some (''image'', ''png'')"
    by (simp add: toAcceptable_char spec_type_part_def spec_subtype_part_def)
  moreover have "toAcceptableImageMediaType ''image/jpeg'' = Some (''image'', ''jpeg'')"
    by (simp add: toAcceptable_char spec_type_part_def spec_subtype_part_def)
  moreover have "toAcceptableImageMediaType ''image/gif'' = None"
    by (simp add: toAcceptable_char spec_type_part_def spec_subtype_part_def)
  moreover have "toAcceptableImageMediaType ''text/plain'' = None"
    by (simp add: toAcceptable_char spec_type_part_def spec_subtype_part_def)
  moreover have "toAcceptableImageMediaType ''image'' = None"
    by (simp add: toAcceptable_char spec_type_part_def spec_subtype_part_def)
  ultimately show ?thesis by blast
qed




text \<open>
  C10. A declared media type with more than one \<open>/\<close> whose first two segments are
  \<open>image\<close> and an allow-listed subtype, such as \<open>image/png/extra\<close>, is accepted by the
  upload filter whatever follows the second segment, and the extension of the generated
  file name is the second segment alone.
\<close>

theorem segments_after_the_second_ignored:
  assumes "mimetype f = ''image/'' @ sub @ ''/'' @ extra"
    and "sub \<in> {''png'', ''jpeg''}"
  shows "fileFilter f = Inr True
       \<and> toAcceptableImageMediaType (mimetype f) = Some (''image'', sub)
       \<and> storage_filename nanoid f = nanoid @ ''.'' @ sub"
proof -
  have a: "toAcceptableImageMediaType (mimetype f) = Some (''image'', sub)"
    using assms by (auto simp: toAcceptable_char spec_type_part_def spec_subtype_part_def)
  from toAcceptable_Some_at[OF a] a show ?thesis
    by (simp add: fileFilter_def storage_filename_def)
qed

theorem segments_after_the_second_ignored_witness:
  "mimetype \<lparr>originalname = ''a.png'', mimetype = ''image/png/extra'', content = ''PNG''\<rparr>
     = ''image/'' @ ''png'' @ ''/'' @ ''extra''
   \<and> ''png'' \<in> {''png'', ''jpeg''}
   \<and> fileFilter \<lparr>originalname = ''a.png'', mimetype = ''image/png/extra'', content = ''PNG''\<rparr>
       = Inr True
   \<and> storage_filename ''V1StGXR8_Z5jdHi6B-myT''
        \<lparr>originalname = ''a.png'', mimetype = ''image/png/extra'', content = ''PNG''\<rparr>
       = ''V1StGXR8_Z5jdHi6B-myT.png''"
proof -
  have h1: "mimetype \<lparr>originalname = ''a.png'', mimetype = ''image/png/extra'', content = ''PNG''\<rparr>
     = ''image/'' @ ''png'' @ ''/'' @ ''extra''"
    by simp
  have h2: "''png'' \<in> {''png'', ''jpeg''}"
    by simp
  show ?thesis
    using h1 h2 segments_after_the_second_ignored [OF h1 h2, of "''V1StGXR8_Z5jdHi6B-myT''"]
    by simp
qed

section \<open>Properties of the password hasher\<close>

lemma compare_generate_iff:
  "compare kdf p1 (generate kdf fresh_salt p2) =
     (kdf saltRounds fresh_salt p1 = kdf saltRounds fresh_salt p2)"
  by (simp add: compare_def generate_def bcrypt_compare_def bcrypt_hash_def)


text \<open>
  C2. For every plaintext \<open>p\<close>, whatever salt \<open>generate\<close> draws, \<open>compare\<close> accepts \<open>p\<close>
  against the hash that \<open>generate\<close> made of it.
\<close>

theorem compare_generate_roundtrip:
  "compare kdf p (generate kdf fresh_salt p) = True"
  by (simp add: compare_generate_iff)



text \<open>
  C4 (as amended). For plaintexts \<open>p1\<close> and \<open>p2\<close> that differ, \<open>compare\<close> rejects \<open>p1\<close>
  against a hash generated from \<open>p2\<close> exactly when the one-way function gives the two
  plaintexts different digests under the salt of the hash and the cost 10; where the
  digests coincide, \<open>p1\<close> is accepted.
\<close>

theorem compare_rejects_iff_digests_differ:
  assumes "p1 \<noteq> p2"
  shows "(compare kdf p1 (generate kdf fresh_salt p2) = False)
       = (kdf saltRounds fresh_salt p1 \<noteq> kdf saltRounds fresh_salt p2)"
  by (simp add: compare_generate_iff)

theorem compare_rejects_iff_digests_differ_witness:
  "''hunter3'' \<noteq> ''hunter2''
   \<and> compare (\<lambda>c s d. take 72 d) ''hunter3''
       (generate (\<lambda>c s d. take 72 d) ''N9qo8uLOickgx2ZMRZoMye'' ''hunter2'') = False"
proof -
  have h: "''hunter3'' \<noteq> ''hunter2''"
    by simp
  show ?thesis
    using h compare_rejects_iff_digests_differ
      [OF h, of "\<lambda>c s d. take 72 d" "''N9qo8uLOickgx2ZMRZoMye''"]
    by simp
qed

text \<open>
  With a one-way function that reads the first 72 bytes of the plaintext, as bcrypt
  does, two plaintexts that differ only after them are not told apart: the second is
  accepted against the hash of the first.
\<close>

theorem compare_false_accept_counterexample:
  "replicate 72 CHR ''a'' @ ''b'' \<noteq> replicate 72 CHR ''a'' @ ''c''
   \<and> compare (\<lambda>c s d. take 72 d) (replicate 72 CHR ''a'' @ ''b'')
       (generate (\<lambda>c s d. take 72 d) ''N9qo8uLOickgx2ZMRZoMye''
          (replicate 72 CHR ''a'' @ ''c'')) = True"
  by (simp add: compare_def generate_def bcrypt_compare_def bcrypt_hash_def)

section \<open>Properties of the user router\<close>

lemma extend_request_fields [simp]:
  "userId (request.extend req ext) = userId req"
  "body (request.extend req ext) = body req"
  "dialogMessage (request.extend req ext) = dialogMessage req"
  "file (request.extend req \<lparr>file = a, uploadError = b\<rparr>) = a"
  "uploadError (request.extend req \<lparr>file = a, uploadError = b\<rparr>) = b"
  by (simp_all add: request.defs)

lemma notEmpty_extend [simp]: "notEmpty fld m (request.extend req ext) = notEmpty fld m req"
  by (simp add: notEmpty_def)

lemma notEmpty_blank:
  "body req fld = None \<or> body req fld = Some [] \<Longrightarrow>
     notEmpty fld m req = [\<lparr>param = fld, msg = m, location = ''body'', value = js (body req fld)\<rparr>]"
  by (auto simp: notEmpty_def)

lemma notEmpty_filled: "body req fld = Some v \<Longrightarrow> v \<noteq> [] \<Longrightarrow> notEmpty fld m req = []"
  by (simp add: notEmpty_def)

lemma fileFilter_Inl:
  "fileFilter f = Inl reason \<Longrightarrow>
     reason = ''Only image files in png or jpeg format can be uploaded''"
  by (auto simp: fileFilter_def split: option.splits)

lemma uploadHandler_rejected:
  assumes "upload req = Some f" and "fileFilter f = Inl reason"
  shows "uploadHandler nanoid req =
     ([], request.extend req
        \<lparr>file = None,
         uploadError = Some \<lparr>param = ''image'', msg = reason, location = ''body'',
                             value = Undefined\<rparr>\<rparr>)"
  using assms by (simp add: uploadHandler_def upload_single_def)

lemma uploadHandler_no_file:
  assumes "upload req = None"
  shows "uploadHandler nanoid req =
     ([], request.extend req \<lparr>file = None, uploadError = None\<rparr>)"
  using assms by (simp add: uploadHandler_def upload_single_def)

lemma patch_user_rejected:
  assumes "ensureAuthUser env req = None" and "ensureCorrectUser env req = None"
    and "upload req = Some f" and "fileFilter f = Inl reason"
  shows "patch_user env nanoid req =
     \<lparr>effects = [],
      response = Render ''users/edit''
        [(''id'', Some (userId req)), (''name'', body req ''name''),
         (''email'', body req ''email'')]
        (validationResult
           [notEmpty ''name'' ''Name can't be blank'',
            notEmpty ''email'' ''Email can't be blank''] req
         @ [\<lparr>param = ''image'',
              msg = ''Only image files in png or jpeg format can be uploaded'',
              location = ''body'', value = Undefined\<rparr>])\<rparr>"
proof -
  have r: "reason = ''Only image files in png or jpeg format can be uploaded''"
    using assms(4) by (rule fileFilter_Inl)
  show ?thesis
    unfolding patch_user_def uploadHandler_rejected[OF assms(3,4)]
    using assms(1,2) r
    by (simp add: validationResult_def)
qed

text \<open>
  C6. When the upload filter rejects the declared media type of an update request's
  file, the handler re-renders the edit form (no server error, no exception); the errors
  it passes to the form are the field-validation errors of the request followed by the
  rejection as a record with \<open>param\<close>, \<open>msg\<close>, \<open>location\<close> and \<open>value\<close>.
\<close>

theorem rejected_upload_joins_field_errors:
  assumes "ensureAuthUser env req = None" and "ensureCorrectUser env req = None"
    and "upload req = Some f" and "fileFilter f = Inl reason"
  shows "response (patch_user env nanoid req) =
     Render ''users/edit''
       [(''id'', Some (userId req)), (''name'', body req ''name''),
        (''email'', body req ''email'')]
       (validationResult
          [notEmpty ''name'' ''Name can't be blank'',
           notEmpty ''email'' ''Email can't be blank''] req
        @ [\<lparr>param = ''image'',
             msg = ''Only image files in png or jpeg format can be uploaded'',
             location = ''body'', value = Undefined\<rparr>])"
  by (simp add: patch_user_rejected[OF assms])

theorem rejected_upload_joins_field_errors_witness:
  "response (patch_user example_env ''V1StGXR8_Z5jdHi6B-myT'' update_with_pdf) =
     Render ''users/edit''
       [(''id'', Some ''7''), (''name'', Some ''''), (''email'', Some ''ann@example.org'')]
       [\<lparr>param = ''name'', msg = ''Name can't be blank'', location = ''body'',
          value = Str ''''\<rparr>,
        \<lparr>param = ''image'',
          msg = ''Only image files in png or jpeg format can be uploaded'',
          location = ''body'', value = Undefined\<rparr>]"
proof -
  have h1: "ensureAuthUser example_env update_with_pdf = None"
    by simp
  have h2: "ensureCorrectUser example_env update_with_pdf = None"
    by simp
  have h3: "upload update_with_pdf =
      Some \<lparr>originalname = ''cv.pdf'', mimetype = ''application/pdf'', content = ''%PDF-1.7''\<rparr>"
    by simp
  have h4: "fileFilter
      \<lparr>originalname = ''cv.pdf'', mimetype = ''application/pdf'', content = ''%PDF-1.7''\<rparr>
      = Inl ''Only image files in png or jpeg format can be uploaded''"
    by (simp add: fileFilter_def toAcceptable_char spec_type_part_def)
  show ?thesis
    using rejected_upload_joins_field_errors [OF h1 h2 h3 h4, of "''V1StGXR8_Z5jdHi6B-myT''"]
    by (simp add: validationResult_def notEmpty_def)
qed





text \<open>
  C7. A signup request whose \<open>name\<close> field is empty creates no user and computes no
  password hash: the request makes no call on its collaborators. When the guard lets
  the request through, the signup form is rendered again, and its first error is
  \<open>Name can't be blank\<close> on the field \<open>name\<close>.
\<close>

theorem blank_name_rerenders_signup_form:
  assumes "body req ''name'' = None \<or> body req ''name'' = Some ''''"
  shows "effects (post_users env kdf fresh_salt req) = []
       \<and> (forbidAuthUser env req = None \<longrightarrow>
            response (post_users env kdf fresh_salt req) =
              Render ''users/new''
                [(''name'', body req ''name''), (''email'', body req ''email''),
                 (''password'', body req ''password'')]
                (\<lparr>param = ''name'', msg = ''Name can't be blank'', location = ''body'',
                   value = js (body req ''name'')\<rparr>
                 # validationResult
                     [notEmpty ''email'' ''Email can't be blank'',
                      notEmpty ''password'' ''Password can't be blank'',
                      custom ''email'' (isUniqueEmail env)] req))"
proof (cases "forbidAuthUser env req")
  case None
  then show ?thesis
    by (simp add: post_users_def validationResult_def
        notEmpty_blank[OF assms, of "''Name can't be blank''"])
next
  case (Some r)
  then show ?thesis
    by (simp add: post_users_def)
qed

theorem blank_name_rerenders_signup_form_witness:
  "effects (post_users example_env (\<lambda>c s d. rev d @ s) ''N9qo8uLOickgx2ZMRZoMye''
      signup_blank_name) = []
   \<and> response (post_users example_env (\<lambda>c s d. rev d @ s) ''N9qo8uLOickgx2ZMRZoMye''
      signup_blank_name) =
       Render ''users/new''
         [(''name'', Some ''''), (''email'', Some ''bob@example.com''),
          (''password'', Some ''hunter2'')]
         [\<lparr>param = ''name'', msg = ''Name can't be blank'', location = ''body'',
            value = Str ''''\<rparr>]"
proof -
  have h: "body signup_blank_name ''name'' = None \<or> body signup_blank_name ''name'' = Some ''''"
    by simp
  have g: "forbidAuthUser example_env signup_blank_name = None"
    by simp
  show ?thesis
    using g blank_name_rerenders_signup_form
      [OF h, of example_env "\<lambda>c s d. rev d @ s" "''N9qo8uLOickgx2ZMRZoMye''"]
    by (simp add: validationResult_def notEmpty_def custom_def)
qed

text \<open>
  C9. A valid profile-update request without a file, for a user that exists, updates
  the user with the submitted \<open>name\<close> and \<open>email\<close> and with \<open>imageName\<close> as it was
  stored, and ends with the redirect to the user's page.
\<close>

theorem update_without_file_keeps_image:
  assumes "ensureAuthUser env req = None" and "ensureCorrectUser env req = None"
    and "upload req = None"
    and "body req ''name'' = Some n" and "n \<noteq> ''''"
    and "body req ''email'' = Some e" and "e \<noteq> ''''"
    and "User_find env (userId req) = Some found"
  shows "patch_user env nanoid req =
     \<lparr>effects =
        [Logged ''no file'', Updated (found\<lparr>name := Some n, email := Some e\<rparr>)]
        @ (if dialogMessage req
           then [Message ''Your account has been updated successfully''] else []),
      response = Redirect (''/users/'' @ user_id found)\<rparr>
     \<and> imageName (found\<lparr>name := Some n, email := Some e\<rparr>) = imageName found"
  unfolding patch_user_def uploadHandler_no_file[OF assms(3)]
  using assms(1,2,4,6,8) notEmpty_filled[OF assms(4,5)] notEmpty_filled[OF assms(6,7)]
  by (simp add: validationResult_def)

theorem update_without_file_keeps_image_witness:
  "patch_user example_env ''V1StGXR8_Z5jdHi6B-myT'' update_without_file =
     \<lparr>effects =
        [Logged ''no file'',
         Updated \<lparr>user_id = ''7'', name = Some ''Ann B'', email = Some ''ann@example.org'',
                  password = password example_user,
                  imageName = ''/image/users/ann.png''\<rparr>,
         Message ''Your account has been updated successfully''],
      response = Redirect ''/users/7''\<rparr>"
proof -
  have h1: "ensureAuthUser example_env update_without_file = None"
    by simp
  have h2: "ensureCorrectUser example_env update_without_file = None"
    by simp
  have h3: "upload update_without_file = None"
    by simp
  have h4: "body update_without_file ''name'' = Some ''Ann B''"
    by simp
  have h5: "''Ann B'' \<noteq> ''''"
    by simp
  have h6: "body update_without_file ''email'' = Some ''ann@example.org''"
    by simp
  have h7: "''ann@example.org'' \<noteq> ''''"
    by simp
  have h8: "User_find example_env (userId update_without_file) = Some example_user"
    by simp
  show ?thesis
    using update_without_file_keeps_image
      [OF h1 h2 h3 h4 h5 h6 h7 h8, of "''V1StGXR8_Z5jdHi6B-myT''"]
    by simp
qed

end
